theory Spec2Isabelle
  imports Complex_Main "HOL-Library.AList"
begin

section \<open>pyopticaltable: a shallow embedding\<close>

text \<open>
  The module \<^verbatim>\<open>pyopticaltable.py\<close> draws optical layouts through matplotlib. The
  embedding keeps the four classes of the module (\<^verbatim>\<open>Tools\<close>, \<^verbatim>\<open>OpticalElement\<close>,
  \<^verbatim>\<open>OpticalTable\<close>, \<^verbatim>\<open>LaserBeam\<close>) and replaces the matplotlib axes by the list of
  artists that have been added to it, in call order. Python floats are read as real
  numbers, so every statement below is about exact arithmetic. Exceptions are values of
  a sum type; a method of the table returns its result together with the table, so
  that whatever was drawn before an exception was raised stays visible.
\<close>

subsection \<open>Module constants\<close>

definition allowed_types :: "string list" where
  "allowed_types = [''mirror'', ''concave_lens'', ''convex_lens'',
                    ''transmissive_plate'', ''transmissive_cube'',
                    ''beamsplitter_cube'', ''generic_box'',
                    ''box_source'', ''point_source'',
                    ''beam_dump'', ''generic_circle'',
                    ''concave_mirror'']"

definition allowed_modes :: "string list" where
  "allowed_modes = [''r'', ''t'']"

definition allowed_sides :: "string list" where
  "allowed_sides = [''top'', ''bottom'', ''left'', ''right'']"

datatype error = ValueError | AssertionError | ZeroDivisionError | TypeError | UnboundLocalError

text \<open>Keyword arguments handed to matplotlib, in the order the call lists them.\<close>

datatype kwval = KStr string | KNum real | KBool bool | KDash real "real list"

type_synonym kwargs = "(string \<times> kwval) list"

definition fontparams :: kwargs where
  "fontparams = [(''fontsize'', KNum 8), (''fontweight'', KStr ''normal''),
                 (''ha'', KStr ''center''), (''va'', KStr ''center''),
                 (''rotation'', KStr ''horizontal'')]"

definition default_fontsize :: real where
  "default_fontsize = 8"

subsection \<open>The canvas\<close>

text \<open>
  The text of a label is either a string given by the caller or \<^verbatim>\<open>str(line)\<close> of a
  grid coordinate. An artist is one call of \<^verbatim>\<open>plot\<close>, \<^verbatim>\<open>text\<close> or
  \<^verbatim>\<open>fill_between\<close> with its positional arguments and its keyword arguments, or a
  \<^verbatim>\<open>Circle\<close> patch handed to \<^verbatim>\<open>add_patch\<close>, with its centre and its keyword arguments.
\<close>

datatype caption = Lit string | StrOf real

datatype prim =
    Plot "real list" "real list" kwargs
  | Text real real caption kwargs
  | FillBetween "real list" "real list" "real list" kwargs
  | CirclePatch "real \<times> real" kwargs

subsection \<open>Tools\<close>

definition inch_to_mm :: "real \<Rightarrow> real" where
  "inch_to_mm v = v * 25.4"

definition mm_to_inch :: "real \<Rightarrow> real" where
  "mm_to_inch v = v / 25.4"

definition deg_to_rad :: "real \<Rightarrow> real" where
  "deg_to_rad v = v * (pi / 180)"

definition rotate_point :: "real \<times> real \<Rightarrow> real \<Rightarrow> real \<times> real \<Rightarrow> real \<times> real" where
  "rotate_point point angle origin =
     (let x_rot = (fst point - fst origin) * cos (deg_to_rad angle)
                  - (snd point - snd origin) * sin (deg_to_rad angle) + fst origin;
          y_rot = (fst point - fst origin) * sin (deg_to_rad angle)
                  + (snd point - snd origin) * cos (deg_to_rad angle) + snd origin
      in (x_rot, y_rot))"

definition sind :: "real \<Rightarrow> real" where
  "sind v = sin (deg_to_rad v)"

definition cosd :: "real \<Rightarrow> real" where
  "cosd v = cos (deg_to_rad v)"

definition get_midpoint :: "(real \<times> real) \<times> (real \<times> real) \<Rightarrow> real \<times> real" where
  "get_midpoint line =
     (let point1 = fst line; point2 = snd line;
          midpoint_x = 0.5 * (fst point1 + fst point2);
          midpoint_y = 0.5 * (snd point1 + snd point2)
      in (midpoint_x, midpoint_y))"

definition get_label_coords ::
  "string \<Rightarrow> real \<Rightarrow> real \<Rightarrow> real \<Rightarrow> real \<Rightarrow> error + real \<times> real" where
  "get_label_coords label_pos x y sz labelpad =
     (let offset = (sz * 0.5) + labelpad in
      if label_pos = ''top'' then Inr (x, y + offset)
      else if label_pos = ''bottom'' then Inr (x, y - offset)
      else if label_pos = ''left'' then Inr (x - offset, y)
      else if label_pos = ''right'' then Inr (x + offset, y)
      else if label_pos = ''centre'' then Inr (x, y)
      else Inl ValueError)"

subsection \<open>OpticalElement\<close>

text \<open>
  The constructor checks \<^verbatim>\<open>mode\<close> and \<^verbatim>\<open>element_type\<close> and then stores
  \<^verbatim>\<open>x\<close>, \<^verbatim>\<open>y\<close>, \<^verbatim>\<open>mode\<close> and \<^verbatim>\<open>angle\<close>: these four are the attributes of the
  object. \<^verbatim>\<open>angle\<close> and \<^verbatim>\<open>element_type\<close> default to \<^verbatim>\<open>None\<close>.
\<close>

record OpticalElement =
  el_x :: real
  el_y :: real
  el_mode :: string
  el_angle :: "real option"

definition OpticalElement_init ::
  "real \<Rightarrow> real \<Rightarrow> string \<Rightarrow> real option \<Rightarrow> string option \<Rightarrow> error + OpticalElement" where
  "OpticalElement_init x y mode angle element_type =
     (if mode \<notin> set allowed_modes then Inl ValueError
      else if element_type \<notin> Some ` set allowed_types then Inl ValueError
      else Inr \<lparr>el_x = x, el_y = y, el_mode = mode, el_angle = angle\<rparr>)"

subsection \<open>OpticalTable\<close>

record OpticalTable =
  ax :: "prim list"
  aspect_ratio :: real

text \<open>\<^verbatim>\<open>float.is_integer\<close>, \<^verbatim>\<open>int\<close> of a float (truncation towards zero) and \<^verbatim>\<open>range\<close>.\<close>

definition is_integer :: "real \<Rightarrow> bool" where
  "is_integer v = (of_int \<lfloor>v\<rfloor> = v)"

definition py_int :: "real \<Rightarrow> int" where
  "py_int v = (if 0 \<le> v then \<lfloor>v\<rfloor> else \<lceil>v\<rceil>)"

definition py_range :: "int \<Rightarrow> nat list" where
  "py_range k = [0..<nat k]"

definition edge_plots :: "real \<Rightarrow> real \<Rightarrow> string \<Rightarrow> bool \<Rightarrow> prim list" where
  "edge_plots len width edgecolour show_edge =
     (let kw = [(''color'', KStr edgecolour), (''visible'', KBool show_edge)] in
      [Plot [- len / 2, len / 2] [width / 2, width / 2] kw,
       Plot [- len / 2, len / 2] [- width / 2, - width / 2] kw,
       Plot [len / 2, len / 2] [- width / 2, width / 2] kw,
       Plot [- len / 2, - len / 2] [- width / 2, width / 2] kw])"

definition grid_lines :: "real \<Rightarrow> real \<Rightarrow> real \<Rightarrow> real list" where
  "grid_lines extent grid_spacing N_lines =
     map (\<lambda>n. (- extent / 2) + (of_nat n * grid_spacing)) (py_range (py_int (N_lines + 1)))"

text \<open>
  \<^verbatim>\<open>OpticalTable.__init__\<close>. The four edges are plotted first; with \<^verbatim>\<open>show_grid\<close>
  the two assertions run before any grid line is plotted. The divisions raise on a zero
  divisor. The pyplot figure and \<^verbatim>\<open>plt.axis('off')\<close> configure the figure and add no
  artist; the calls into pyplot are taken to return normally, which is what they do on
  a figure of positive size.
\<close>

definition OpticalTable_init ::
  "real \<Rightarrow> real \<Rightarrow> real \<Rightarrow> string \<Rightarrow> real \<Rightarrow> string \<Rightarrow> bool \<Rightarrow> bool \<Rightarrow> bool
     \<Rightarrow> error + OpticalTable" where
  "OpticalTable_init len width size_factor edgecolour grid_spacing gridcolour
                     show_edge show_grid show_labels =
     (let edges = edge_plots len width edgecolour show_edge in
      if show_grid then
        if grid_spacing = 0 then Inl ZeroDivisionError
        else let N_lines_x = len / grid_spacing in
        if \<not> is_integer N_lines_x then Inl AssertionError
        else let N_lines_y = width / grid_spacing in
        if \<not> is_integer N_lines_y then Inl AssertionError
        else
          let x_lines = grid_lines len grid_spacing N_lines_x;
              y_lines = grid_lines width grid_spacing N_lines_y;
              kw = [(''color'', KStr gridcolour), (''lw'', KNum 0.5)];
              grid = map (\<lambda>line. Plot [line, line] [- width / 2, width / 2] kw) x_lines
                   @ map (\<lambda>line. Plot [- len / 2, len / 2] [line, line] kw) y_lines;
              tkw = [(''ha'', KStr ''center''), (''va'', KStr ''center'')];
              labels = (if show_labels
                        then map (\<lambda>line. Text line ((- width / 2) - 1) (StrOf line) tkw) x_lines
                           @ map (\<lambda>line. Text ((- len / 2) - 1) line (StrOf line) tkw) y_lines
                        else [])
          in if width = 0 then Inl ZeroDivisionError
             else Inr \<lparr>ax = edges @ grid @ labels, aspect_ratio = len / width\<rparr>
      else if width = 0 then Inl ZeroDivisionError
      else Inr \<lparr>ax = edges, aspect_ratio = len / width\<rparr>)"

text \<open>
  A method of the table returns its value, or the exception it raised, and the table as
  it is at that moment. \<open>and_then\<close> runs the next statement unless an exception was
  raised.
\<close>

type_synonym 'a outcome = "(error + 'a) \<times> OpticalTable"

definition and_then :: "'a outcome \<Rightarrow> ('a \<Rightarrow> OpticalTable \<Rightarrow> 'b outcome) \<Rightarrow> 'b outcome" where
  "and_then r f = (case r of (Inl e, t) \<Rightarrow> (Inl e, t) | (Inr v, t) \<Rightarrow> f v t)"

definition ax_plot :: "real list \<Rightarrow> real list \<Rightarrow> kwargs \<Rightarrow> OpticalTable \<Rightarrow> OpticalTable" where
  "ax_plot xs ys kw t = t\<lparr>ax := ax t @ [Plot xs ys kw]\<rparr>"

definition ax_text :: "real \<Rightarrow> real \<Rightarrow> caption \<Rightarrow> kwargs \<Rightarrow> OpticalTable \<Rightarrow> OpticalTable" where
  "ax_text lx ly s kw t = t\<lparr>ax := ax t @ [Text lx ly s kw]\<rparr>"

definition ax_fill_between ::
  "real list \<Rightarrow> real list \<Rightarrow> real list \<Rightarrow> kwargs \<Rightarrow> OpticalTable \<Rightarrow> OpticalTable" where
  "ax_fill_between l1 l2 l3 kw t = t\<lparr>ax := ax t @ [FillBetween l1 l2 l3 kw]\<rparr>"

definition angled_line ::
  "OpticalTable \<Rightarrow> real \<Rightarrow> real \<Rightarrow> real \<Rightarrow> real \<Rightarrow> string \<Rightarrow> bool \<Rightarrow> bool
     \<Rightarrow> (real \<times> real \<times> real \<times> real) option \<times> OpticalTable" where
  "angled_line self x y sz angle colour show get_coords =
     (let dX = (sz / 2) * cosd angle * aspect_ratio self;
          dY = (sz / 2) * sind angle * aspect_ratio self;
          self1 = (if show
                   then ax_plot [x - dX, x + dX] [y - dY, y + dY] [(''color'', KStr colour)] self
                   else self)
      in (if get_coords then Some (x - dX, x + dX, y - dY, y + dY) else None, self1))"

definition set_label ::
  "OpticalTable \<Rightarrow> real \<Rightarrow> real \<Rightarrow> real \<Rightarrow> string option \<Rightarrow> string \<Rightarrow> real \<Rightarrow> string \<Rightarrow> real
     \<Rightarrow> unit outcome" where
  "set_label self x y sz label label_pos labelpad textcolour fontsize =
     (case label of
        None \<Rightarrow> (Inr (), self)
      | Some l \<Rightarrow>
          (let fontsdict = AList.update ''fontsize'' (KNum fontsize) fontparams in
           case get_label_coords label_pos x y sz labelpad of
             Inl e \<Rightarrow> (Inl e, self)
           | Inr (label_x, label_y) \<Rightarrow>
               (Inr (), ax_text label_x label_y (Lit l)
                          ((''color'', KStr textcolour) # fontsdict) self)))"

definition mirror ::
  "OpticalTable \<Rightarrow> real \<Rightarrow> real \<Rightarrow> real \<Rightarrow> real \<Rightarrow> string \<Rightarrow> string option \<Rightarrow> string \<Rightarrow> real
     \<Rightarrow> string \<Rightarrow> real \<Rightarrow> OpticalElement outcome" where
  "mirror self x y sz angle colour label label_pos labelpad textcolour fontsize =
     (let self1 = snd (angled_line self x y sz angle colour True False) in
      and_then (set_label self1 x y sz label label_pos labelpad textcolour fontsize)
        (\<lambda>_ self2. (OpticalElement_init x y ''r'' (Some angle) (Some ''mirror''), self2)))"

definition transmissive_plate ::
  "OpticalTable \<Rightarrow> real \<Rightarrow> real \<Rightarrow> real \<Rightarrow> real \<Rightarrow> string \<Rightarrow> real \<Rightarrow> bool \<Rightarrow> string
     \<Rightarrow> string option \<Rightarrow> string \<Rightarrow> real \<Rightarrow> string \<Rightarrow> real \<Rightarrow> real \<Rightarrow> OpticalElement outcome" where
  "transmissive_plate self x y sz angle colour offset_factor fill fillcolour
                      label label_pos labelpad textcolour fontsize zorder =
     (let offset_x = offset_factor * aspect_ratio self * sind angle;
          offset_y = offset_factor * aspect_ratio self * cosd angle;
          (coords1, self1) = angled_line self (x + offset_x) (y - offset_y) sz angle ''k'' True True;
          (coords2, self2) = angled_line self1 (x - offset_x) (y + offset_y) sz angle ''k'' True True
      in case (coords1, coords2) of
           (Some (a0, a1, a2, a3), Some (b0, b1, b2, b3)) \<Rightarrow>
             (let kw = [(''color'', KStr colour), (''zorder'', KNum zorder)];
                  self3 = ax_plot [a0, b0] [a2, b2] kw self2;
                  self4 = ax_plot [a1, b1] [a3, b3] kw self3;
                  self5 = (if fill
                           then ax_fill_between [a0, a1] [a2, a2] [b2, b2]
                                  [(''color'', KStr fillcolour), (''zorder'', KNum zorder)] self4
                           else self4)
              in and_then (set_label self5 x y sz label label_pos labelpad textcolour fontsize)
                   (\<lambda>_ self6. (OpticalElement_init x y ''t'' (Some angle)
                                  (Some ''transmissive_plate''), self6)))
         | _ \<Rightarrow> (Inl TypeError, self2))"

definition transmissive_cube ::
  "OpticalTable \<Rightarrow> real \<Rightarrow> real \<Rightarrow> real \<Rightarrow> real \<Rightarrow> string \<Rightarrow> string option \<Rightarrow> string \<Rightarrow> real
     \<Rightarrow> string \<Rightarrow> real \<Rightarrow> OpticalElement outcome" where
  "transmissive_cube self x y sz angle colour label label_pos labelpad textcolour fontsize =
     and_then (transmissive_plate self x y sz angle colour (sz * 0.5) False ''k''
                 None ''top'' 0.25 ''k'' default_fontsize 2)
       (\<lambda>_ self1.
          and_then (set_label self1 x y sz label label_pos labelpad textcolour fontsize)
            (\<lambda>_ self2. (OpticalElement_init x y ''t'' (Some angle)
                           (Some ''transmissive_cube''), self2)))"

definition beamsplitter_cube ::
  "OpticalTable \<Rightarrow> real \<Rightarrow> real \<Rightarrow> real \<Rightarrow> real \<Rightarrow> string \<Rightarrow> string \<Rightarrow> string option \<Rightarrow> string
     \<Rightarrow> real \<Rightarrow> string \<Rightarrow> real \<Rightarrow> OpticalElement outcome" where
  "beamsplitter_cube self x y sz angle direction colour label label_pos labelpad
                     textcolour fontsize =
     (if direction \<notin> set [''L'', ''R''] then (Inl ValueError, self)
      else
        and_then (transmissive_cube self x y sz angle colour None ''top'' 0.25 ''k''
                    default_fontsize)
          (\<lambda>_ self1.
             let self2 = (if direction = ''L''
                          then snd (angled_line self1 x y (sz * sqrt 2) (angle + 45) ''k'' True False)
                          else self1);
                 self3 = (if direction = ''R''
                          then snd (angled_line self2 x y (sz * sqrt 2) (angle - 45) ''k'' True False)
                          else self2)
             in and_then (set_label self3 x y sz label label_pos labelpad textcolour fontsize)
                  (\<lambda>_ self4. (OpticalElement_init x y ''t'' (Some angle)
                                 (Some ''beamsplitter_cube''), self4))))"

text \<open>
  \<^verbatim>\<open>box\<close>: the loop runs over the indices of \<^verbatim>\<open>corners_rot[0:-1]\<close>, plots the edge
  from corner \<open>i\<close> to corner \<open>i + 1\<close>, and at \<open>i = 2\<close> also the closing edge. The method
  returns a handle when \<^verbatim>\<open>standalone\<close> is set and the rotated corners otherwise.
\<close>

definition box_edge ::
  "(real \<times> real) list \<Rightarrow> kwargs \<Rightarrow> nat \<Rightarrow> OpticalTable \<Rightarrow> OpticalTable" where
  "box_edge corners_rot kw i self =
     (let self1 = ax_plot [fst (corners_rot ! i), fst (corners_rot ! (i + 1))]
                          [snd (corners_rot ! i), snd (corners_rot ! (i + 1))] kw self
      in if i = 2
         then ax_plot [fst (corners_rot ! (i + 1)), fst (corners_rot ! 0)]
                      [snd (corners_rot ! (i + 1)), snd (corners_rot ! 0)] kw self1
         else self1)"

definition box ::
  "OpticalTable \<Rightarrow> real \<Rightarrow> real \<Rightarrow> real \<Rightarrow> real \<Rightarrow> real \<Rightarrow> string \<Rightarrow> string \<Rightarrow> bool
     \<Rightarrow> string option \<Rightarrow> string \<Rightarrow> real \<Rightarrow> string \<Rightarrow> real
     \<Rightarrow> (OpticalElement + (real \<times> real) list) outcome" where
  "box self x y size_x size_y angle colour linestyle standalone
       label label_pos labelpad textcolour fontsize =
     (let offset_x = size_x / 2;
          offset_y = size_y / 2;
          corners = [(x - offset_x, y - offset_y), (x + offset_x, y - offset_y),
                     (x + offset_x, y + offset_y), (x - offset_x, y + offset_y)];
          corners_rot = map (\<lambda>corner. rotate_point corner angle (x, y)) corners;
          kw = [(''color'', KStr colour), (''ls'', KStr linestyle)];
          self1 = fold (box_edge corners_rot kw) [0..<length (butlast corners_rot)] self
      in if standalone
         then and_then (set_label self1 x y 0 label label_pos labelpad textcolour default_fontsize)
                (\<lambda>_ self2. (map_sum id Inl (OpticalElement_init x y ''t'' (Some angle)
                                               (Some ''generic_box'')), self2))
         else (Inr (Inr corners_rot), self1))"

definition box_source ::
  "OpticalTable \<Rightarrow> real \<Rightarrow> real \<Rightarrow> real \<Rightarrow> real \<Rightarrow> real \<Rightarrow> string \<Rightarrow> string \<Rightarrow> string option
     \<Rightarrow> string \<Rightarrow> real \<Rightarrow> string \<Rightarrow> real \<Rightarrow> OpticalElement outcome" where
  "box_source self x y size_x size_y angle output_side colour
              label label_pos labelpad textcolour fontsize =
     (if output_side \<notin> set allowed_sides then (Inl ValueError, self)
      else
        and_then (box self x y size_x size_y angle ''k'' ''-'' False
                    None ''top'' 0.25 ''k'' default_fontsize)
          (\<lambda>r self1.
             case r of
               Inl _ \<Rightarrow> (Inl TypeError, self1)
             | Inr corners \<Rightarrow>
                 (case (if output_side = ''top'' then Inr (corners ! 2, corners ! 3)
                        else if output_side = ''bottom'' then Inr (corners ! 0, corners ! 1)
                        else if output_side = ''left'' then Inr (corners ! 0, corners ! 3)
                        else if output_side = ''right'' then Inr (corners ! 1, corners ! 2)
                        else Inl UnboundLocalError) of
                    Inl e \<Rightarrow> (Inl e, self1)
                  | Inr side \<Rightarrow>
                      (let output_point = get_midpoint side in
                       and_then (set_label self1 x y 0 label label_pos labelpad textcolour fontsize)
                         (\<lambda>_ self2. (OpticalElement_init (fst output_point) (snd output_point)
                                        ''t'' (Some angle) (Some ''box_source''), self2))))))"



subsection \<open>LaserBeam\<close>

record LaserBeam =
  beam_colour :: string
  beam_width :: real
  beam_style :: kwval
  beam_divergent :: bool
  beam_div_angle :: "real option"

definition LaserBeam_init :: "string \<Rightarrow> real \<Rightarrow> kwval \<Rightarrow> bool \<Rightarrow> real option \<Rightarrow> LaserBeam" where
  "LaserBeam_init colour width style divergent divergence_angle =
     \<lparr>beam_colour = colour, beam_width = width, beam_style = style,
      beam_divergent = divergent, beam_div_angle = divergence_angle\<rparr>"

text \<open>
  \<^verbatim>\<open>LaserBeam.draw\<close>: with \<^verbatim>\<open>divergent\<close> set the body is \<^verbatim>\<open>pass\<close>; otherwise the loop
  runs over the indices of \<^verbatim>\<open>optics[0:-1]\<close> and plots from element \<open>i\<close> to element
  \<open>i + 1\<close>. The method returns nothing; the embedding returns the two mutable objects
  it was given, the table and the list of elements, as they are after the call. The
  method reads the elements and assigns to none of them.
\<close>

definition draw_step :: "LaserBeam \<Rightarrow> OpticalElement list \<Rightarrow> nat \<Rightarrow> OpticalTable \<Rightarrow> OpticalTable" where
  "draw_step self optics i table =
     ax_plot [el_x (optics ! i), el_x (optics ! (i + 1))]
             [el_y (optics ! i), el_y (optics ! (i + 1))]
             [(''color'', KStr (beam_colour self)), (''linewidth'', KNum (beam_width self)),
              (''linestyle'', beam_style self)] table"

definition draw ::
  "LaserBeam \<Rightarrow> OpticalTable \<Rightarrow> OpticalElement list \<Rightarrow> OpticalTable \<times> OpticalElement list" where
  "draw self table optics =
     (if beam_divergent self then (table, optics)
      else (fold (draw_step self optics) [0..<length (butlast optics)] table, optics))"

subsection \<open>Notions used to state the properties\<close>

text \<open>
  The segments a beam is expected to draw, by recursion over consecutive pairs of
  elements; the artist plotted for index \<open>i\<close> by the loop of \<^verbatim>\<open>draw\<close>; the line an
  \<^verbatim>\<open>angled_line\<close> call puts on a table of a given aspect ratio; the four rotated
  corners of a box, anticlockwise from the bottom left, and its outline; the label
  positions \<^verbatim>\<open>get_label_coords\<close> accepts.
\<close>

fun consecutive_segments :: "LaserBeam \<Rightarrow> OpticalElement list \<Rightarrow> prim list" where
  "consecutive_segments b (h1 # h2 # hs) =
     Plot [el_x h1, el_x h2] [el_y h1, el_y h2]
          [(''color'', KStr (beam_colour b)), (''linewidth'', KNum (beam_width b)),
           (''linestyle'', beam_style b)] # consecutive_segments b (h2 # hs)"
| "consecutive_segments b _ = []"

definition segment_at :: "LaserBeam \<Rightarrow> OpticalElement list \<Rightarrow> nat \<Rightarrow> prim" where
  "segment_at b os i = Plot [el_x (os ! i), el_x (os ! (i + 1))]
             [el_y (os ! i), el_y (os ! (i + 1))]
             [(''color'', KStr (beam_colour b)), (''linewidth'', KNum (beam_width b)),
              (''linestyle'', beam_style b)]"

definition line_artist :: "real \<Rightarrow> real \<Rightarrow> real \<Rightarrow> real \<Rightarrow> real \<Rightarrow> string \<Rightarrow> prim" where
  "line_artist ar x y sz angle colour =
     Plot [x - (sz / 2) * cosd angle * ar, x + (sz / 2) * cosd angle * ar]
          [y - (sz / 2) * sind angle * ar, y + (sz / 2) * sind angle * ar]
          [(''color'', KStr colour)]"

definition valid_label_pos :: "string \<Rightarrow> bool" where
  "valid_label_pos label_pos = (label_pos \<in> set [''top'', ''bottom'', ''left'', ''right'', ''centre''])"

definition corner_bl :: "real \<Rightarrow> real \<Rightarrow> real \<Rightarrow> real \<Rightarrow> real \<Rightarrow> real \<times> real" where
  "corner_bl x y size_x size_y angle = rotate_point (x - size_x / 2, y - size_y / 2) angle (x, y)"

definition corner_br :: "real \<Rightarrow> real \<Rightarrow> real \<Rightarrow> real \<Rightarrow> real \<Rightarrow> real \<times> real" where
  "corner_br x y size_x size_y angle = rotate_point (x + size_x / 2, y - size_y / 2) angle (x, y)"

definition corner_tr :: "real \<Rightarrow> real \<Rightarrow> real \<Rightarrow> real \<Rightarrow> real \<Rightarrow> real \<times> real" where
  "corner_tr x y size_x size_y angle = rotate_point (x + size_x / 2, y + size_y / 2) angle (x, y)"

definition corner_tl :: "real \<Rightarrow> real \<Rightarrow> real \<Rightarrow> real \<Rightarrow> real \<Rightarrow> real \<times> real" where
  "corner_tl x y size_x size_y angle = rotate_point (x - size_x / 2, y + size_y / 2) angle (x, y)"

definition edge_between :: "real \<times> real \<Rightarrow> real \<times> real \<Rightarrow> kwargs \<Rightarrow> prim" where
  "edge_between p q kw = Plot [fst p, fst q] [snd p, snd q] kw"

definition box_outline :: "real \<Rightarrow> real \<Rightarrow> real \<Rightarrow> real \<Rightarrow> real \<Rightarrow> kwargs \<Rightarrow> prim list" where
  "box_outline x y size_x size_y angle kw =
     [edge_between (corner_bl x y size_x size_y angle) (corner_br x y size_x size_y angle) kw,
      edge_between (corner_br x y size_x size_y angle) (corner_tr x y size_x size_y angle) kw,
      edge_between (corner_tr x y size_x size_y angle) (corner_tl x y size_x size_y angle) kw,
      edge_between (corner_tl x y size_x size_y angle) (corner_bl x y size_x size_y angle) kw]"

text \<open>
  Two tables as \<^verbatim>\<open>OpticalTable(20, 10)\<close> and \<^verbatim>\<open>OpticalTable(10, 10)\<close> build them
  (no grid, black edge), used as concrete inputs.
\<close>

definition table_20_10 :: OpticalTable where
  "table_20_10 = \<lparr>ax = edge_plots 20 10 ''k'' True, aspect_ratio = 2\<rparr>"

definition table_10_10 :: OpticalTable where
  "table_10_10 = \<lparr>ax = edge_plots 10 10 ''k'' True, aspect_ratio = 1\<rparr>"

text \<open>
  The keyword arguments of a beam segment, of a grid line and of a grid label; the side
  of the rotated box that an \<^verbatim>\<open>output_side\<close> names, as its two corners; a handle at a
  point, and two beams, used as concrete inputs.
\<close>

definition beam_kw :: "LaserBeam \<Rightarrow> kwargs" where
  "beam_kw b = [(''color'', KStr (beam_colour b)), (''linewidth'', KNum (beam_width b)),
                (''linestyle'', beam_style b)]"

definition grid_kw :: "string \<Rightarrow> kwargs" where
  "grid_kw gridcolour = [(''color'', KStr gridcolour), (''lw'', KNum 0.5)]"

definition tick_kw :: kwargs where
  "tick_kw = [(''ha'', KStr ''center''), (''va'', KStr ''center'')]"

definition box_side ::
  "string \<Rightarrow> real \<Rightarrow> real \<Rightarrow> real \<Rightarrow> real \<Rightarrow> real \<Rightarrow> (real \<times> real) \<times> (real \<times> real)" where
  "box_side output_side x y size_x size_y angle =
     (if output_side = ''top'' then (corner_tr x y size_x size_y angle, corner_tl x y size_x size_y angle)
      else if output_side = ''bottom'' then (corner_bl x y size_x size_y angle, corner_br x y size_x size_y angle)
      else if output_side = ''left'' then (corner_bl x y size_x size_y angle, corner_tl x y size_x size_y angle)
      else (corner_br x y size_x size_y angle, corner_tr x y size_x size_y angle))"

definition handle_at :: "real \<Rightarrow> real \<Rightarrow> OpticalElement" where
  "handle_at x y = \<lparr>el_x = x, el_y = y, el_mode = ''t'', el_angle = None\<rparr>"

definition green_beam :: LaserBeam where
  "green_beam = LaserBeam_init ''green'' 1 (KStr ''-'') False None"

definition divergent_beam :: LaserBeam where
  "divergent_beam = LaserBeam_init ''green'' 1 (KStr ''-'') True (Some 5)"

section \<open>Auxiliary facts\<close>

lemma cosd_0: "cosd 0 = 1" by (simp add: cosd_def deg_to_rad_def)
lemma sind_0: "sind 0 = 0" by (simp add: sind_def deg_to_rad_def)

lemma set_label_None: "set_label t x y sz None lp pad tc fs = (Inr (), t)"
  by (simp add: set_label_def)

lemma fold_box_edge:
  "fold (box_edge [c0, c1, c2, c3] kw) [0..<length (butlast [c0, c1, c2, c3])] t
     = t\<lparr>ax := ax t @ [edge_between c0 c1 kw, edge_between c1 c2 kw,
                          edge_between c2 c3 kw, edge_between c3 c0 kw]\<rparr>"
  by (simp add: upt_rec box_edge_def ax_plot_def edge_between_def)

lemma box_drawn:
  "box t x y sx sy a colour ls standalone label lp pad tc fs =
     (let t1 = t\<lparr>ax := ax t @ box_outline x y sx sy a [(''color'', KStr colour), (''ls'', KStr ls)]\<rparr>
      in if standalone
         then and_then (set_label t1 x y 0 label lp pad tc default_fontsize)
                (\<lambda>_ t2. (Inr (Inl \<lparr>el_x = x, el_y = y, el_mode = ''t'', el_angle = Some a\<rparr>), t2))
         else (Inr (Inr [corner_bl x y sx sy a, corner_br x y sx sy a,
                         corner_tr x y sx sy a, corner_tl x y sx sy a]), t1))"
  unfolding box_def Let_def list.map fold_box_edge
  by (simp add: box_outline_def corner_bl_def corner_br_def corner_tr_def corner_tl_def
        OpticalElement_init_def allowed_modes_def allowed_types_def)

lemma angled_line_shown:
  "angled_line t x y sz a c True g =
     (if g then Some (x - (sz / 2) * cosd a * aspect_ratio t, x + (sz / 2) * cosd a * aspect_ratio t,
                      y - (sz / 2) * sind a * aspect_ratio t, y + (sz / 2) * sind a * aspect_ratio t)
      else None,
      t\<lparr>ax := ax t @ [line_artist (aspect_ratio t) x y sz a c]\<rparr>)"
  by (simp add: angled_line_def ax_plot_def line_artist_def Let_def)


lemma get_label_coords_valid:
  "valid_label_pos lp \<Longrightarrow> \<exists>p. get_label_coords lp x y sz pad = Inr p"
  by (auto simp add: get_label_coords_def valid_label_pos_def)


lemma set_label_ok:
  "label = None \<or> valid_label_pos lp \<Longrightarrow> fst (set_label t x y sz label lp pad tc fs) = Inr ()"
proof (cases label)
  case None
  then show ?thesis by (simp add: set_label_None)
next
  case (Some l)
  assume "label = None \<or> valid_label_pos lp"
  with Some have "valid_label_pos lp" by simp
  then obtain p where "get_label_coords lp x y sz pad = Inr p"
    using get_label_coords_valid by blast
  with Some show ?thesis by (cases p) (simp add: set_label_def)
qed

lemma and_then_Inr: "and_then (Inr v, t) f = f v t"
  by (simp add: and_then_def)


lemma and_then_set_label_ok:
  "label = None \<or> valid_label_pos lp \<Longrightarrow>
   and_then (set_label t x y sz label lp pad tc fs) f = f () (snd (set_label t x y sz label lp pad tc fs))"
  using set_label_ok [of label lp t x y sz pad tc fs]
  by (cases "set_label t x y sz label lp pad tc fs") (simp add: and_then_def)

lemma plate_init: "OpticalElement_init x y ''t'' a (Some ''transmissive_plate'')
   = Inr \<lparr>el_x = x, el_y = y, el_mode = ''t'', el_angle = a\<rparr>"
  by (simp add: OpticalElement_init_def allowed_modes_def allowed_types_def)

lemma cube_init: "OpticalElement_init x y ''t'' a (Some ''transmissive_cube'')
   = Inr \<lparr>el_x = x, el_y = y, el_mode = ''t'', el_angle = a\<rparr>"
  by (simp add: OpticalElement_init_def allowed_modes_def allowed_types_def)

lemma bs_init: "OpticalElement_init x y ''t'' a (Some ''beamsplitter_cube'')
   = Inr \<lparr>el_x = x, el_y = y, el_mode = ''t'', el_angle = a\<rparr>"
  by (simp add: OpticalElement_init_def allowed_modes_def allowed_types_def)

lemma src_init: "OpticalElement_init x y ''t'' a (Some ''box_source'')
   = Inr \<lparr>el_x = x, el_y = y, el_mode = ''t'', el_angle = a\<rparr>"
  by (simp add: OpticalElement_init_def allowed_modes_def allowed_types_def)

lemma mirror_init: "OpticalElement_init x y ''r'' a (Some ''mirror'')
   = Inr \<lparr>el_x = x, el_y = y, el_mode = ''r'', el_angle = a\<rparr>"
  by (simp add: OpticalElement_init_def allowed_modes_def allowed_types_def)

lemma transmissive_plate_unlabelled:
  "fst (transmissive_plate t x y sz a colour off fill fc None lp pad tc fs z)
     = Inr \<lparr>el_x = x, el_y = y, el_mode = ''t'', el_angle = Some a\<rparr>
   \<and> aspect_ratio (snd (transmissive_plate t x y sz a colour off fill fc None lp pad tc fs z))
     = aspect_ratio t"
  by (simp add: transmissive_plate_def angled_line_shown Let_def set_label_None and_then_Inr
        plate_init ax_plot_def ax_fill_between_def)

lemma transmissive_cube_unlabelled:
  "fst (transmissive_cube t x y sz a colour None lp pad tc fs)
     = Inr \<lparr>el_x = x, el_y = y, el_mode = ''t'', el_angle = Some a\<rparr>
   \<and> aspect_ratio (snd (transmissive_cube t x y sz a colour None lp pad tc fs)) = aspect_ratio t"
proof -
  obtain r t1 where p: "transmissive_plate t x y sz a colour (sz * 0.5) False ''k''
                 None ''top'' 0.25 ''k'' default_fontsize 2 = (r, t1)"
    by (cases "transmissive_plate t x y sz a colour (sz * 0.5) False ''k''
                 None ''top'' 0.25 ''k'' default_fontsize 2") 
  with transmissive_plate_unlabelled [of t x y sz a colour "sz * 0.5" False "''k''" "''top''" "0.25" "''k''" default_fontsize 2]
  have "r = Inr \<lparr>el_x = x, el_y = y, el_mode = ''t'', el_angle = Some a\<rparr>" "aspect_ratio t1 = aspect_ratio t"
    by simp_all
  with p show ?thesis
    by (simp add: transmissive_cube_def and_then_Inr set_label_None cube_init)
qed

lemma beamsplitter_unlabelled:
  assumes "direction \<in> set [''L'', ''R'']"
  shows "beamsplitter_cube t x y sz a direction colour None lp pad tc fs =
     (Inr \<lparr>el_x = x, el_y = y, el_mode = ''t'', el_angle = Some a\<rparr>,
      snd (angled_line (snd (transmissive_cube t x y sz a colour None ''top'' 0.25 ''k'' default_fontsize))
             x y (sz * sqrt 2) (if direction = ''L'' then a + 45 else a - 45) ''k'' True False))"
proof -
  obtain r t1 where p: "transmissive_cube t x y sz a colour None ''top'' 0.25 ''k'' default_fontsize = (r, t1)"
    by (cases "transmissive_cube t x y sz a colour None ''top'' 0.25 ''k'' default_fontsize")
  with transmissive_cube_unlabelled [of t x y sz a colour "''top''" "0.25" "''k''" default_fontsize]
  have r: "r = Inr \<lparr>el_x = x, el_y = y, el_mode = ''t'', el_angle = Some a\<rparr>" by simp
  from assms have "direction = ''L'' \<or> direction = ''R''" by simp
  then show ?thesis
  proof
    assume "direction = ''L''"
    then show ?thesis
      unfolding beamsplitter_cube_def p r
      by (simp add: and_then_Inr set_label_None bs_init Let_def)
  next
    assume "direction = ''R''"
    then show ?thesis
      unfolding beamsplitter_cube_def p r
      by (simp add: and_then_Inr set_label_None bs_init Let_def)
  qed
qed

lemma beamsplitter_invalid:
  "direction \<notin> set [''L'', ''R''] \<Longrightarrow>
   beamsplitter_cube t x y sz a direction colour label lp pad tc fs = (Inl ValueError, t)"
  by (simp add: beamsplitter_cube_def)

lemma fold_draw_step:
  "fold (draw_step b os) ns t = t\<lparr>ax := ax t @ map (segment_at b os) ns\<rparr>"
  by (induction ns arbitrary: t) (simp_all add: draw_step_def ax_plot_def segment_at_def)

lemma segments_by_index:
  "map (segment_at b os) [0..<length os - 1] = consecutive_segments b os"
proof (induction b os rule: consecutive_segments.induct)
  case (1 b h1 h2 hs)
  have "[0..<length (h1 # h2 # hs) - 1] = 0 # map Suc [0..<length (h2 # hs) - 1]"
  proof -
    have "[0..<Suc (length hs)] = 0 # [Suc 0..<Suc (length hs)]"
      by (rule upt_conv_Cons) simp
    moreover have "length (h1 # h2 # hs) - 1 = Suc (length hs)" "length (h2 # hs) - 1 = length hs"
      by simp_all
    ultimately show ?thesis by (simp only: map_Suc_upt)
  qed
  then have "map (segment_at b (h1 # h2 # hs)) [0..<length (h1 # h2 # hs) - 1]
        = segment_at b (h1 # h2 # hs) 0
          # map (\<lambda>i. segment_at b (h1 # h2 # hs) (Suc i)) [0..<length (h2 # hs) - 1]"
    by (simp add: comp_def)
  also have "(\<lambda>i. segment_at b (h1 # h2 # hs) (Suc i)) = segment_at b (h2 # hs)"
    by (simp add: segment_at_def fun_eq_iff)
  finally show ?case using 1 by (simp add: segment_at_def)
qed simp_all

lemma length_consecutive_segments: "length (consecutive_segments b os) = length os - 1"
  by (induction b os rule: consecutive_segments.induct) simp_all

lemma nth_consecutive_segments:
  "i < length os - 1 \<Longrightarrow> consecutive_segments b os ! i = segment_at b os i"
proof -
  assume a: "i < length os - 1"
  have "consecutive_segments b os ! i = map (segment_at b os) [0..<length os - 1] ! i"
    by (simp only: segments_by_index length_butlast)
  also have "\<dots> = segment_at b os i" using a by simp
  finally show ?thesis .
qed

lemma table_20_10_init:
  "OpticalTable_init 20 10 10 ''k'' 1 ''gray'' True False False = Inr table_20_10"
  by (simp add: OpticalTable_init_def table_20_10_def)

lemma table_10_10_init:
  "OpticalTable_init 10 10 10 ''k'' 1 ''gray'' True False False = Inr table_10_10"
  by (simp add: OpticalTable_init_def table_10_10_def)

lemma cosd_45_45: "cosd (45 + 45) = 0" "sind (45 + 45) = 1" "cosd (45 - 45) = 1" "sind (45 - 45) = 0"
  by (simp_all add: cosd_def sind_def deg_to_rad_def)

lemma sin_cos_sq: "(sz * sind a * ar)\<^sup>2 + (sz * cosd a * ar)\<^sup>2 = (sz * ar)\<^sup>2"
proof -
  have "(sz * sind a * ar)\<^sup>2 + (sz * cosd a * ar)\<^sup>2 = (sz * ar)\<^sup>2 * ((sind a)\<^sup>2 + (cosd a)\<^sup>2)"
    by (simp add: power2_eq_square algebra_simps)
  then show ?thesis by (simp add: sind_def cosd_def)
qed

lemma is_integer_10_3: "\<not> is_integer (10 / 3)"
  by (simp add: is_integer_def)

lemma is_integer_10_2: "is_integer (10 / 2)"
  by (simp add: is_integer_def)

lemma grid_lines_10_2: "grid_lines 10 2 (10 / 2) = [-5, -3, -1, 1, 3, 5]"
  by (simp add: grid_lines_def py_range_def py_int_def upt_rec)

lemma grid_lines_4_2: "grid_lines 4 2 (4 / 2) = [-2, 0, 2]"
  by (simp add: grid_lines_def py_range_def py_int_def upt_rec)

lemma box_source_valid:
  assumes "output_side \<in> set allowed_sides"
  shows "box_source self x y size_x size_y angle output_side colour label label_pos labelpad textcolour fontsize
     = and_then (set_label (self\<lparr>ax := ax self @ box_outline x y size_x size_y angle
                                                  [(''color'', KStr ''k''), (''ls'', KStr ''-'')]\<rparr>)
                   x y 0 label label_pos labelpad textcolour fontsize)
         (\<lambda>_ self2. (Inr \<lparr>el_x = fst (get_midpoint (box_side output_side x y size_x size_y angle)),
                          el_y = snd (get_midpoint (box_side output_side x y size_x size_y angle)),
                          el_mode = ''t'', el_angle = Some angle\<rparr>, self2))"
proof -
  from assms have "output_side = ''top'' \<or> output_side = ''bottom'' \<or> output_side = ''left''
                   \<or> output_side = ''right''"
    by (simp add: allowed_sides_def)
  then show ?thesis
    unfolding box_source_def box_drawn
    by (elim disjE) (simp_all add: allowed_sides_def and_then_Inr box_side_def src_init Let_def)
qed

lemma midpoint_rotated_side:
  "get_midpoint (box_side ''top'' x y sx sy a) = rotate_point (x, y + sy / 2) a (x, y)"
  "get_midpoint (box_side ''bottom'' x y sx sy a) = rotate_point (x, y - sy / 2) a (x, y)"
  "get_midpoint (box_side ''left'' x y sx sy a) = rotate_point (x - sx / 2, y) a (x, y)"
  "get_midpoint (box_side ''right'' x y sx sy a) = rotate_point (x + sx / 2, y) a (x, y)"
  by (simp_all add: get_midpoint_def box_side_def corner_bl_def corner_br_def corner_tr_def
        corner_tl_def rotate_point_def Let_def field_simps)

section \<open>The beamsplitter cube\<close>

text \<open>
  Claim C1, as the code has it. A call \<^verbatim>\<open>beamsplitter_cube(x, y, size, angle, direction)\<close>
  without a label draws a transmissive cube and then exactly one more line, through
  \<^verbatim>\<open>angled_line\<close> with size \<open>size * sqrt 2\<close>, at \<open>angle + 45\<close> for direction \<^verbatim>\<open>L\<close> and at
  \<open>angle - 45\<close> for direction \<^verbatim>\<open>R\<close>; it returns a transmissive handle at \<open>(x, y)\<close>. A
  direction outside \<^verbatim>\<open>L\<close>, \<^verbatim>\<open>R\<close> raises \<^verbatim>\<open>ValueError\<close> and leaves the table as it was,
  and a valid direction does not raise.
\<close>

theorem beamsplitter_cube_diagonal:
  "(direction \<in> set [''L'', ''R''] \<longrightarrow>
      (\<exists>self1. transmissive_cube self x y sz angle colour None ''top'' 0.25 ''k'' default_fontsize
               = (Inr \<lparr>el_x = x, el_y = y, el_mode = ''t'', el_angle = Some angle\<rparr>, self1)
         \<and> beamsplitter_cube self x y sz angle direction colour None label_pos labelpad textcolour fontsize
           = (Inr \<lparr>el_x = x, el_y = y, el_mode = ''t'', el_angle = Some angle\<rparr>,
              self1\<lparr>ax := ax self1 @ [line_artist (aspect_ratio self) x y (sz * sqrt 2)
                                         (if direction = ''L'' then angle + 45 else angle - 45) ''k'']\<rparr>)))
   \<and> (direction \<notin> set [''L'', ''R''] \<longrightarrow>
        beamsplitter_cube self x y sz angle direction colour label label_pos labelpad textcolour fontsize
          = (Inl ValueError, self))"
proof (intro conjI impI)
  assume d: "direction \<in> set [''L'', ''R'']"
  obtain r self1 where p: "transmissive_cube self x y sz angle colour None ''top'' 0.25 ''k'' default_fontsize = (r, self1)"
    by (cases "transmissive_cube self x y sz angle colour None ''top'' 0.25 ''k'' default_fontsize")
  with transmissive_cube_unlabelled [of self x y sz angle colour "''top''" "0.25" "''k''" default_fontsize]
  have r: "r = Inr \<lparr>el_x = x, el_y = y, el_mode = ''t'', el_angle = Some angle\<rparr>"
    and ar: "aspect_ratio self1 = aspect_ratio self" by simp_all
  have "beamsplitter_cube self x y sz angle direction colour None label_pos labelpad textcolour fontsize
        = (Inr \<lparr>el_x = x, el_y = y, el_mode = ''t'', el_angle = Some angle\<rparr>,
           self1\<lparr>ax := ax self1 @ [line_artist (aspect_ratio self) x y (sz * sqrt 2)
                                         (if direction = ''L'' then angle + 45 else angle - 45) ''k'']\<rparr>)"
    unfolding beamsplitter_unlabelled [OF d] p
    by (simp add: angled_line_shown ar)
  with p r show "\<exists>self1. transmissive_cube self x y sz angle colour None ''top'' 0.25 ''k'' default_fontsize
               = (Inr \<lparr>el_x = x, el_y = y, el_mode = ''t'', el_angle = Some angle\<rparr>, self1)
         \<and> beamsplitter_cube self x y sz angle direction colour None label_pos labelpad textcolour fontsize
           = (Inr \<lparr>el_x = x, el_y = y, el_mode = ''t'', el_angle = Some angle\<rparr>,
              self1\<lparr>ax := ax self1 @ [line_artist (aspect_ratio self) x y (sz * sqrt 2)
                                         (if direction = ''L'' then angle + 45 else angle - 45) ''k'']\<rparr>)"
    by blast
next
  assume "direction \<notin> set [''L'', ''R'']"
  then show "beamsplitter_cube self x y sz angle direction colour label label_pos labelpad textcolour fontsize
          = (Inl ValueError, self)"
    by (rule beamsplitter_invalid)
qed

text \<open>
  For direction \<^verbatim>\<open>R\<close> and angle 45 on a square table the extra line is the horizontal
  one (rotation \<open>45 - 45\<close>), not the vertical one that rotation \<open>45 + 45\<close> gives: the
  signs are the other way round from what the claim says.
\<close>

theorem beamsplitter_cube_R_counterexample:
  "last (ax (snd (beamsplitter_cube table_10_10 0 0 2 45 ''R'' ''k'' None ''top'' 0.25 ''k'' 8)))
     = Plot [- sqrt 2, sqrt 2] [0, 0] [(''color'', KStr ''k'')]
   \<and> line_artist 1 0 0 (2 * sqrt 2) (45 + 45) ''k'' = Plot [0, 0] [- sqrt 2, sqrt 2] [(''color'', KStr ''k'')]
   \<and> Plot [- sqrt 2, sqrt 2] [0, 0] [(''color'', KStr ''k'')]
       \<noteq> Plot [0, 0] [- sqrt 2, sqrt 2] [(''color'', KStr ''k'')]"
proof -
  have d: "''R'' \<in> set [''L'', ''R'']" by simp
  have ar: "aspect_ratio (snd (transmissive_cube table_10_10 0 0 2 45 ''k'' None ''top'' 0.25 ''k'' default_fontsize)) = 1"
    using transmissive_cube_unlabelled [of table_10_10 0 0 2 45 "''k''" "''top''" "0.25" "''k''" default_fontsize]
    by (simp add: table_10_10_def)
  have "last (ax (snd (beamsplitter_cube table_10_10 0 0 2 45 ''R'' ''k'' None ''top'' 0.25 ''k'' 8)))
     = line_artist 1 0 0 (2 * sqrt 2) (45 - 45) ''k''"
    unfolding beamsplitter_unlabelled [OF d] angled_line_shown ar by simp
  moreover have "line_artist 1 0 0 (2 * sqrt 2) (45 - 45) ''k'' = Plot [- sqrt 2, sqrt 2] [0, 0] [(''color'', KStr ''k'')]"
    unfolding line_artist_def cosd_45_45 by simp
  moreover have "line_artist 1 0 0 (2 * sqrt 2) (45 + 45) ''k'' = Plot [0, 0] [- sqrt 2, sqrt 2] [(''color'', KStr ''k'')]"
    unfolding line_artist_def cosd_45_45 by simp
  moreover have "sqrt 2 \<noteq> (0::real)" by simp
  ultimately show ?thesis by simp
qed

theorem beamsplitter_cube_diagonal_witness:
  "beamsplitter_cube table_10_10 0 0 2 45 ''X'' ''k'' None ''top'' 0.25 ''k'' 8 = (Inl ValueError, table_10_10)
   \<and> fst (beamsplitter_cube table_10_10 0 0 2 45 ''L'' ''k'' None ''top'' 0.25 ''k'' 8)
       = Inr \<lparr>el_x = 0, el_y = 0, el_mode = ''t'', el_angle = Some 45\<rparr>
   \<and> last (ax (snd (beamsplitter_cube table_10_10 0 0 2 45 ''L'' ''k'' None ''top'' 0.25 ''k'' 8)))
       = line_artist 1 0 0 (2 * sqrt 2) 90 ''k''"
proof -
  have x: "''X'' \<notin> set [''L'', ''R'']" and l: "''L'' \<in> set [''L'', ''R'']" by simp_all
  have "beamsplitter_cube table_10_10 0 0 2 45 ''X'' ''k'' None ''top'' 0.25 ''k'' 8 = (Inl ValueError, table_10_10)"
    using beamsplitter_cube_diagonal [of "''X''" table_10_10 0 0 2 45 "''k''" "''top''" "0.25" "''k''" 8 None] x
    by blast
  moreover from beamsplitter_cube_diagonal [of "''L''" table_10_10 0 0 2 45 "''k''" "''top''" "0.25" "''k''" 8 None] l
  obtain self1 where "beamsplitter_cube table_10_10 0 0 2 45 ''L'' ''k'' None ''top'' 0.25 ''k'' 8
     = (Inr \<lparr>el_x = 0, el_y = 0, el_mode = ''t'', el_angle = Some 45\<rparr>,
              self1\<lparr>ax := ax self1 @ [line_artist (aspect_ratio table_10_10) 0 0 (2 * sqrt 2)
                                         (if ''L'' = ''L'' then 45 + 45 else 45 - 45) ''k'']\<rparr>)"
    by blast
  ultimately show ?thesis by (simp add: table_10_10_def)
qed

section \<open>What a handle stores\<close>

text \<open>
  Claim C2, as the code has it. The constructor of \<^verbatim>\<open>OpticalElement\<close> succeeds exactly when
  the mode and the element type are allowed, and raises \<^verbatim>\<open>ValueError\<close> otherwise. The
  handle it returns holds the position, the mode and the angle; the element type is
  checked and not stored, so two allowed element types give the same handle.
\<close>

theorem OpticalElement_kind_not_retained:
  "(mode \<in> set allowed_modes \<and> k1 \<in> set allowed_types \<and> k2 \<in> set allowed_types \<longrightarrow>
      OpticalElement_init x y mode angle (Some k1)
        = Inr \<lparr>el_x = x, el_y = y, el_mode = mode, el_angle = angle\<rparr>
      \<and> OpticalElement_init x y mode angle (Some k2) = OpticalElement_init x y mode angle (Some k1))
   \<and> (mode \<notin> set allowed_modes \<or> element_type \<notin> Some ` set allowed_types \<longrightarrow>
        OpticalElement_init x y mode angle element_type = Inl ValueError)"
  by (auto simp add: OpticalElement_init_def)

text \<open>
  A point source and a generic circle at the same place give equal handles, although
  their kinds differ: the kind cannot be read back from the handle.
\<close>

theorem OpticalElement_kind_counterexample:
  "OpticalElement_init 0 0 ''t'' None (Some ''point_source'')
     = OpticalElement_init 0 0 ''t'' None (Some ''generic_circle'')
   \<and> OpticalElement_init 0 0 ''t'' None (Some ''point_source'')
     = Inr \<lparr>el_x = 0, el_y = 0, el_mode = ''t'', el_angle = None\<rparr>
   \<and> ''point_source'' \<noteq> ''generic_circle''"
  by (simp add: OpticalElement_init_def allowed_modes_def allowed_types_def)

theorem OpticalElement_kind_not_retained_witness:
  "OpticalElement_init 1 2 ''r'' (Some 45) (Some ''mirror'')
     = Inr \<lparr>el_x = 1, el_y = 2, el_mode = ''r'', el_angle = Some 45\<rparr>
   \<and> OpticalElement_init 1 2 ''r'' (Some 45) (Some ''concave_mirror'')
     = OpticalElement_init 1 2 ''r'' (Some 45) (Some ''mirror'')
   \<and> OpticalElement_init 1 2 ''r'' (Some 45) (Some ''prism'') = Inl ValueError
   \<and> OpticalElement_init 1 2 ''r'' (Some 45) None = Inl ValueError"
proof -
  have a: "''r'' \<in> set allowed_modes \<and> ''mirror'' \<in> set allowed_types \<and> ''concave_mirror'' \<in> set allowed_types"
    by (simp add: allowed_modes_def allowed_types_def)
  have b: "Some ''prism'' \<notin> Some ` set allowed_types" "None \<notin> Some ` set allowed_types"
    by (auto simp add: allowed_types_def)
  show ?thesis
    using OpticalElement_kind_not_retained [of "''r''" "''mirror''" "''concave_mirror''" 1 2 "Some 45" "Some ''prism''"]
          OpticalElement_kind_not_retained [of "''r''" "''mirror''" "''concave_mirror''" 1 2 "Some 45" None]
          a b
    by blast
qed

section \<open>When an invalid argument is detected\<close>




section \<open>The mirror\<close>

text \<open>
  Claim C4, as the code has it. \<^verbatim>\<open>mirror(x, y, size, angle)\<close> draws one straight segment
  whose end points are the points \<open>(x \<plusminus> size * aspect_ratio / 2, y)\<close> rotated by \<open>angle\<close>
  about \<open>(x, y)\<close>. Its midpoint is \<open>(x, y)\<close> and the square of its length is
  \<open>(size * aspect_ratio)\<^sup>2\<close>, so that its length is \<open>size\<close> on a table of aspect ratio 1
  (for a size that is not negative). The handle is reflective, at \<open>(x, y)\<close>, with
  orientation \<open>angle\<close>.
\<close>

theorem mirror_segment:
  "mirror self x y sz angle colour None label_pos labelpad textcolour fontsize
     = (Inr \<lparr>el_x = x, el_y = y, el_mode = ''r'', el_angle = Some angle\<rparr>,
        self\<lparr>ax := ax self @
          [edge_between (rotate_point (x - sz * aspect_ratio self / 2, y) angle (x, y))
                        (rotate_point (x + sz * aspect_ratio self / 2, y) angle (x, y))
                        [(''color'', KStr colour)]]\<rparr>)
   \<and> get_midpoint (rotate_point (x - sz * aspect_ratio self / 2, y) angle (x, y),
                    rotate_point (x + sz * aspect_ratio self / 2, y) angle (x, y)) = (x, y)
   \<and> (fst (rotate_point (x + sz * aspect_ratio self / 2, y) angle (x, y))
        - fst (rotate_point (x - sz * aspect_ratio self / 2, y) angle (x, y)))\<^sup>2
     + (snd (rotate_point (x + sz * aspect_ratio self / 2, y) angle (x, y))
        - snd (rotate_point (x - sz * aspect_ratio self / 2, y) angle (x, y)))\<^sup>2
     = (sz * aspect_ratio self)\<^sup>2
   \<and> (aspect_ratio self = 1 \<and> 0 \<le> sz \<longrightarrow>
        sqrt ((fst (rotate_point (x + sz * aspect_ratio self / 2, y) angle (x, y))
                - fst (rotate_point (x - sz * aspect_ratio self / 2, y) angle (x, y)))\<^sup>2
              + (snd (rotate_point (x + sz * aspect_ratio self / 2, y) angle (x, y))
                - snd (rotate_point (x - sz * aspect_ratio self / 2, y) angle (x, y)))\<^sup>2) = sz)"
proof -
  let ?p = "rotate_point (x - sz * aspect_ratio self / 2, y) angle (x, y)"
  let ?q = "rotate_point (x + sz * aspect_ratio self / 2, y) angle (x, y)"
  have p: "?p = (x - (sz / 2) * cosd angle * aspect_ratio self, y - (sz / 2) * sind angle * aspect_ratio self)"
    by (simp add: rotate_point_def cosd_def sind_def Let_def algebra_simps)
  have q: "?q = (x + (sz / 2) * cosd angle * aspect_ratio self, y + (sz / 2) * sind angle * aspect_ratio self)"
    by (simp add: rotate_point_def cosd_def sind_def Let_def algebra_simps)
  have 1: "mirror self x y sz angle colour None label_pos labelpad textcolour fontsize
     = (Inr \<lparr>el_x = x, el_y = y, el_mode = ''r'', el_angle = Some angle\<rparr>,
        self\<lparr>ax := ax self @ [edge_between ?p ?q [(''color'', KStr colour)]]\<rparr>)"
    unfolding p q
    by (simp add: mirror_def angled_line_shown set_label_None and_then_Inr mirror_init
          line_artist_def edge_between_def)
  have 2: "get_midpoint (?p, ?q) = (x, y)"
    unfolding p q by (simp add: get_midpoint_def Let_def)
  have 3: "(fst ?q - fst ?p)\<^sup>2 + (snd ?q - snd ?p)\<^sup>2 = (sz * aspect_ratio self)\<^sup>2"
  proof -
    have "fst ?q - fst ?p = sz * cosd angle * aspect_ratio self"
         "snd ?q - snd ?p = sz * sind angle * aspect_ratio self"
      unfolding p q by simp_all
    then show ?thesis
      using sin_cos_sq [of sz angle "aspect_ratio self"] by (simp add: add.commute)
  qed
  have 4: "aspect_ratio self = 1 \<and> 0 \<le> sz \<longrightarrow>
        sqrt ((fst ?q - fst ?p)\<^sup>2 + (snd ?q - snd ?p)\<^sup>2) = sz"
    unfolding 3 by simp
  from 1 2 3 4 show ?thesis by blast
qed

text \<open>
  On the table \<^verbatim>\<open>OpticalTable(20, 10)\<close>, of aspect ratio 2, a mirror of size 2 at angle 0
  is the segment from \<open>(-2, 0)\<close> to \<open>(2, 0)\<close>, of length 4.
\<close>

theorem mirror_length_counterexample:
  "OpticalTable_init 20 10 10 ''k'' 1 ''gray'' True False False = Inr table_20_10
   \<and> mirror table_20_10 0 0 2 0 ''k'' None ''bottom'' 0.25 ''k'' 8
     = (Inr \<lparr>el_x = 0, el_y = 0, el_mode = ''r'', el_angle = Some 0\<rparr>,
        table_20_10\<lparr>ax := ax table_20_10 @ [Plot [-2, 2] [0, 0] [(''color'', KStr ''k'')]]\<rparr>)
   \<and> sqrt ((2 - (- 2))\<^sup>2 + (0 - 0)\<^sup>2) \<noteq> (2::real)"
proof -
  have "sqrt ((2 - (- 2))\<^sup>2 + (0 - 0)\<^sup>2) = (4::real)" by simp
  then show ?thesis
    by (simp add: table_20_10_init mirror_def angled_line_shown set_label_None and_then_Inr mirror_init
          line_artist_def cosd_0 sind_0 table_20_10_def)
qed

theorem mirror_segment_witness:
  "mirror table_10_10 0 0 2 0 ''k'' None ''bottom'' 0.25 ''k'' 8
     = (Inr \<lparr>el_x = 0, el_y = 0, el_mode = ''r'', el_angle = Some 0\<rparr>,
        table_10_10\<lparr>ax := ax table_10_10 @ [Plot [-1, 1] [0, 0] [(''color'', KStr ''k'')]]\<rparr>)
   \<and> sqrt ((1 - (- 1))\<^sup>2 + (0 - 0)\<^sup>2) = (2::real)"
proof -
  have r: "rotate_point (0 - 2 * aspect_ratio table_10_10 / 2, 0) 0 (0, 0) = (- 1, 0)"
          "rotate_point (0 + 2 * aspect_ratio table_10_10 / 2, 0) 0 (0, 0) = (1, 0)"
    by (simp_all add: rotate_point_def deg_to_rad_def table_10_10_def)
  have h: "aspect_ratio table_10_10 = 1 \<and> (0::real) \<le> 2" by (simp add: table_10_10_def)
  show ?thesis
    using mirror_segment [of table_10_10 0 0 2 0 "''k''" "''bottom''" "0.25" "''k''" 8] h
    unfolding r by (simp add: edge_between_def)
qed

section \<open>Drawing a beam\<close>

text \<open>
  Claim C5. With \<^verbatim>\<open>divergent\<close> off, \<^verbatim>\<open>LaserBeam.draw\<close> on a list of \<open>n\<close> handles appends
  exactly \<open>n - 1\<close> segments to the canvas, the \<open>i\<close>-th from the anchor of handle \<open>i\<close> to the
  anchor of handle \<open>i + 1\<close>, in list order; on a list of no or one handle it appends
  nothing.
\<close>

theorem draw_consecutive_segments:
  assumes "\<not> beam_divergent self"
  shows "fst (draw self table optics) = table\<lparr>ax := ax table @ consecutive_segments self optics\<rparr>
   \<and> length (consecutive_segments self optics) = length optics - 1
   \<and> (\<forall>i < length optics - 1.
         consecutive_segments self optics ! i
           = Plot [el_x (optics ! i), el_x (optics ! (i + 1))]
                  [el_y (optics ! i), el_y (optics ! (i + 1))] (beam_kw self))
   \<and> (length optics \<le> 1 \<longrightarrow> fst (draw self table optics) = table)"
proof -
  have 1: "fst (draw self table optics) = table\<lparr>ax := ax table @ consecutive_segments self optics\<rparr>"
    unfolding draw_def fold_draw_step length_butlast segments_by_index using assms by simp
  have 2: "length (consecutive_segments self optics) = length optics - 1"
    by (rule length_consecutive_segments)
  have 3: "\<forall>i < length optics - 1.
         consecutive_segments self optics ! i
           = Plot [el_x (optics ! i), el_x (optics ! (i + 1))]
                  [el_y (optics ! i), el_y (optics ! (i + 1))] (beam_kw self)"
    by (simp add: nth_consecutive_segments segment_at_def beam_kw_def)
  have 4: "length optics \<le> 1 \<longrightarrow> fst (draw self table optics) = table"
  proof
    assume "length optics \<le> 1"
    then have "length (consecutive_segments self optics) = 0" unfolding 2 by simp
    then show "fst (draw self table optics) = table" unfolding 1 by simp
  qed
  from 1 2 3 4 show ?thesis by blast
qed

text \<open>
  The beam through \<open>(0, 0)\<close>, \<open>(5, 0)\<close>, \<open>(5, 5)\<close> draws two segments, and a beam
  through one handle or none draws nothing.
\<close>

theorem draw_consecutive_segments_witness:
  "fst (draw green_beam table_10_10 [handle_at 0 0, handle_at 5 0, handle_at 5 5])
     = table_10_10\<lparr>ax := ax table_10_10 @
         [Plot [0, 5] [0, 0] (beam_kw green_beam), Plot [5, 5] [0, 5] (beam_kw green_beam)]\<rparr>
   \<and> fst (draw green_beam table_10_10 [handle_at 0 0]) = table_10_10
   \<and> fst (draw green_beam table_10_10 []) = table_10_10"
proof -
  have nd: "\<not> beam_divergent green_beam" by (simp add: green_beam_def LaserBeam_init_def)
  have a: "consecutive_segments green_beam [handle_at 0 0, handle_at 5 0, handle_at 5 5]
     = [Plot [0, 5] [0, 0] (beam_kw green_beam), Plot [5, 5] [0, 5] (beam_kw green_beam)]"
    by (simp add: handle_at_def beam_kw_def)
  show ?thesis
    using draw_consecutive_segments [OF nd, of table_10_10 "[handle_at 0 0, handle_at 5 0, handle_at 5 5]"]
          draw_consecutive_segments [OF nd, of table_10_10 "[handle_at 0 0]"]
          draw_consecutive_segments [OF nd, of table_10_10 "[]"]
    unfolding a by simp
qed

section \<open>The divergent mode\<close>

text \<open>
  Claim C6. With \<^verbatim>\<open>divergent\<close> on, \<^verbatim>\<open>LaserBeam.draw\<close> draws nothing, whatever the list
  of handles: the table after the call is the table before it.
\<close>

theorem draw_divergent_noop:
  assumes "beam_divergent self"
  shows "fst (draw self table optics) = table \<and> ax (fst (draw self table optics)) = ax table"
  using assms by (simp add: draw_def)

text \<open>
  A divergent beam through three handles leaves the table as it was.
\<close>

theorem draw_divergent_noop_witness:
  "fst (draw divergent_beam table_10_10 [handle_at 0 0, handle_at 5 0, handle_at 5 5]) = table_10_10"
proof -
  have d: "beam_divergent divergent_beam" by (simp add: divergent_beam_def LaserBeam_init_def)
  show ?thesis
    using draw_divergent_noop [OF d, of table_10_10 "[handle_at 0 0, handle_at 5 0, handle_at 5 5]"]
    by simp
qed

section \<open>The grid of a table\<close>

text \<open>
  Claim C7. With a grid requested, constructing a table of length 10 with grid spacing
  3 fails its assertion, for every positive width and size factor. With grid spacing 2
  and a width that is a multiple of 2 it succeeds, and the vertical grid lines are at \<open>x = -5, -3, -1,
  1, 3, 5\<close>, after the four edges and before the horizontal grid lines and the labels.
  Whenever construction with a grid succeeds, the spacing divides both the length and
  the width; without a grid the spacing is not checked.
\<close>

theorem grid_spacing_precondition:
  assumes "0 < width" and "0 < size_factor"
  shows "OpticalTable_init 10 width size_factor edgecolour 3 gridcolour show_edge True show_labels
     = Inl AssertionError
   \<and> (is_integer (width / 2) \<longrightarrow>
        OpticalTable_init 10 width size_factor edgecolour 2 gridcolour show_edge True show_labels
          = Inr \<lparr>ax = edge_plots 10 width edgecolour show_edge
                     @ map (\<lambda>line. Plot [line, line] [- width / 2, width / 2] (grid_kw gridcolour))
                         [-5, -3, -1, 1, 3, 5]
                     @ map (\<lambda>line. Plot [-5, 5] [line, line] (grid_kw gridcolour))
                         (grid_lines width 2 (width / 2))
                     @ (if show_labels
                        then map (\<lambda>line. Text line ((- width / 2) - 1) (StrOf line) tick_kw)
                               [-5, -3, -1, 1, 3, 5]
                           @ map (\<lambda>line. Text (-6) line (StrOf line) tick_kw)
                               (grid_lines width 2 (width / 2))
                        else []),
                 aspect_ratio = 10 / width\<rparr>)
   \<and> (OpticalTable_init len width size_factor edgecolour grid_spacing gridcolour show_edge True show_labels
        = Inr table \<longrightarrow> is_integer (len / grid_spacing) \<and> is_integer (width / grid_spacing))
   \<and> OpticalTable_init 10 width size_factor edgecolour 3 gridcolour show_edge False show_labels
        = Inr \<lparr>ax = edge_plots 10 width edgecolour show_edge, aspect_ratio = 10 / width\<rparr>"
proof (intro conjI impI)
  show "OpticalTable_init 10 width size_factor edgecolour 3 gridcolour show_edge True show_labels
     = Inl AssertionError"
    using is_integer_10_3 by (simp add: OpticalTable_init_def)
next
  assume a: "is_integer (width / 2)"
  have "grid_lines 10 2 5 = [-5, -3, -1, 1, 3, 5]" using grid_lines_10_2 by simp
  moreover have "is_integer 5" using is_integer_10_2 by simp
  ultimately show "OpticalTable_init 10 width size_factor edgecolour 2 gridcolour show_edge True show_labels
          = Inr \<lparr>ax = edge_plots 10 width edgecolour show_edge
                     @ map (\<lambda>line. Plot [line, line] [- width / 2, width / 2] (grid_kw gridcolour))
                         [-5, -3, -1, 1, 3, 5]
                     @ map (\<lambda>line. Plot [-5, 5] [line, line] (grid_kw gridcolour))
                         (grid_lines width 2 (width / 2))
                     @ (if show_labels
                        then map (\<lambda>line. Text line ((- width / 2) - 1) (StrOf line) tick_kw)
                               [-5, -3, -1, 1, 3, 5]
                           @ map (\<lambda>line. Text (-6) line (StrOf line) tick_kw)
                               (grid_lines width 2 (width / 2))
                        else []),
                 aspect_ratio = 10 / width\<rparr>"
    using a assms(1) by (simp add: OpticalTable_init_def Let_def grid_kw_def tick_kw_def)
next
  assume "OpticalTable_init len width size_factor edgecolour grid_spacing gridcolour show_edge True show_labels
        = Inr table"
  then show "is_integer (len / grid_spacing)" "is_integer (width / grid_spacing)"
    by (simp_all add: OpticalTable_init_def Let_def split: if_splits)
next
  show "OpticalTable_init 10 width size_factor edgecolour 3 gridcolour show_edge False show_labels
          = Inr \<lparr>ax = edge_plots 10 width edgecolour show_edge, aspect_ratio = 10 / width\<rparr>"
    using assms(1) by (simp add: OpticalTable_init_def)
qed

text \<open>
  The table of length 10 and width 4 with a grid.
\<close>

theorem grid_spacing_precondition_witness:
  "OpticalTable_init 10 4 10 ''k'' 3 ''gray'' True True False = Inl AssertionError
   \<and> OpticalTable_init 10 4 10 ''k'' 2 ''gray'' True True False
     = Inr \<lparr>ax = edge_plots 10 4 ''k'' True
                @ map (\<lambda>line. Plot [line, line] [-2, 2] (grid_kw ''gray'')) [-5, -3, -1, 1, 3, 5]
                @ map (\<lambda>line. Plot [-5, 5] [line, line] (grid_kw ''gray'')) [-2, 0, 2],
            aspect_ratio = 5 / 2\<rparr>
   \<and> is_integer (10 / 2) \<and> is_integer (4 / 2)
   \<and> OpticalTable_init 10 4 10 ''k'' 3 ''gray'' True False False
     = Inr \<lparr>ax = edge_plots 10 4 ''k'' True, aspect_ratio = 5 / 2\<rparr>"
proof -
  have p: "(0::real) < 4" "(0::real) < 10" by simp_all
  have h: "is_integer (4 / 2)" by (simp add: is_integer_def)
  note t = grid_spacing_precondition [OF p, of "''k''" "''gray''" True False 10 2
             "\<lparr>ax = edge_plots 10 4 ''k'' True
                @ map (\<lambda>line. Plot [line, line] [-2, 2] (grid_kw ''gray'')) [-5, -3, -1, 1, 3, 5]
                @ map (\<lambda>line. Plot [-5, 5] [line, line] (grid_kw ''gray'')) [-2, 0, 2],
            aspect_ratio = 5 / 2\<rparr>"]
  from t have 1: "OpticalTable_init 10 4 10 ''k'' 3 ''gray'' True True False = Inl AssertionError"
    by blast
  from t h have 2: "OpticalTable_init 10 4 10 ''k'' 2 ''gray'' True True False
     = Inr \<lparr>ax = edge_plots 10 4 ''k'' True
                @ map (\<lambda>line. Plot [line, line] [-2, 2] (grid_kw ''gray'')) [-5, -3, -1, 1, 3, 5]
                @ map (\<lambda>line. Plot [-5, 5] [line, line] (grid_kw ''gray'')) [-2, 0, 2],
            aspect_ratio = 5 / 2\<rparr>"
    using grid_lines_4_2 by simp
  from t 2 have 3: "is_integer (10 / 2) \<and> is_integer (4 / 2)" by blast
  from t have 4: "OpticalTable_init 10 4 10 ''k'' 3 ''gray'' True False False
     = Inr \<lparr>ax = edge_plots 10 4 ''k'' True, aspect_ratio = 5 / 2\<rparr>"
    by simp
  from 1 2 3 4 show ?thesis by blast
qed

section \<open>The anchor of a box source\<close>

text \<open>
  Claim C8. For an \<^verbatim>\<open>output_side\<close> among \<^verbatim>\<open>top\<close>, \<^verbatim>\<open>bottom\<close>, \<^verbatim>\<open>left\<close>, \<^verbatim>\<open>right\<close> (and
  no label, or a label at a valid position) \<^verbatim>\<open>box_source\<close> returns a handle whose anchor
  is the midpoint of the two rotated corners of that side. For \<^verbatim>\<open>x = 0\<close>, \<^verbatim>\<open>y = 0\<close>,
  \<^verbatim>\<open>size_x = 4\<close>, \<^verbatim>\<open>size_y = 2\<close>, \<^verbatim>\<open>angle = 0\<close> the anchor is \<open>(2, 0)\<close> for \<^verbatim>\<open>right\<close> and
  \<open>(0, 1)\<close> for \<^verbatim>\<open>top\<close>.
\<close>

theorem box_source_anchor:
  assumes "output_side \<in> set allowed_sides" and "label = None \<or> valid_label_pos label_pos"
  shows "fst (box_source self x y size_x size_y angle output_side colour label label_pos labelpad
                textcolour fontsize)
     = Inr \<lparr>el_x = (fst (fst (box_side output_side x y size_x size_y angle))
                    + fst (snd (box_side output_side x y size_x size_y angle))) / 2,
            el_y = (snd (fst (box_side output_side x y size_x size_y angle))
                    + snd (snd (box_side output_side x y size_x size_y angle))) / 2,
            el_mode = ''t'', el_angle = Some angle\<rparr>
   \<and> fst (box_source self 0 0 4 2 0 ''right'' colour label label_pos labelpad textcolour fontsize)
     = Inr \<lparr>el_x = 2, el_y = 0, el_mode = ''t'', el_angle = Some 0\<rparr>
   \<and> fst (box_source self 0 0 4 2 0 ''top'' colour label label_pos labelpad textcolour fontsize)
     = Inr \<lparr>el_x = 0, el_y = 1, el_mode = ''t'', el_angle = Some 0\<rparr>"
proof -
  have g: "fst (box_source self x y size_x size_y angle s colour label label_pos labelpad textcolour fontsize)
     = Inr \<lparr>el_x = fst (get_midpoint (box_side s x y size_x size_y angle)),
            el_y = snd (get_midpoint (box_side s x y size_x size_y angle)),
            el_mode = ''t'', el_angle = Some angle\<rparr>"
    if "s \<in> set allowed_sides" for s x y size_x size_y angle
    unfolding box_source_valid [OF that] and_then_set_label_ok [OF assms(2)] by simp
  have r: "''right'' \<in> set allowed_sides" and t: "''top'' \<in> set allowed_sides"
    by (simp_all add: allowed_sides_def)
  have a: "fst (box_source self x y size_x size_y angle output_side colour label label_pos labelpad
                textcolour fontsize)
     = Inr \<lparr>el_x = (fst (fst (box_side output_side x y size_x size_y angle))
                    + fst (snd (box_side output_side x y size_x size_y angle))) / 2,
            el_y = (snd (fst (box_side output_side x y size_x size_y angle))
                    + snd (snd (box_side output_side x y size_x size_y angle))) / 2,
            el_mode = ''t'', el_angle = Some angle\<rparr>"
    unfolding g [OF assms(1)] by (simp add: get_midpoint_def Let_def)
  have b: "fst (box_source self 0 0 4 2 0 ''right'' colour label label_pos labelpad textcolour fontsize)
     = Inr \<lparr>el_x = 2, el_y = 0, el_mode = ''t'', el_angle = Some 0\<rparr>"
    unfolding g [OF r] midpoint_rotated_side by (simp add: rotate_point_def deg_to_rad_def)
  have c: "fst (box_source self 0 0 4 2 0 ''top'' colour label label_pos labelpad textcolour fontsize)
     = Inr \<lparr>el_x = 0, el_y = 1, el_mode = ''t'', el_angle = Some 0\<rparr>"
    unfolding g [OF t] midpoint_rotated_side by (simp add: rotate_point_def deg_to_rad_def)
  from a b c show ?thesis by blast
qed

text \<open>
  A box of 4 by 2 at \<open>(1, 1)\<close> turned by 90 degrees has its right side from \<open>(2, 3)\<close>
  to \<open>(0, 3)\<close>, and the anchor at \<open>(1, 3)\<close>.
\<close>

theorem box_source_anchor_witness:
  "fst (box_source table_10_10 1 1 4 2 90 ''right'' ''k'' None ''top'' 0.25 ''k'' 8)
     = Inr \<lparr>el_x = 1, el_y = 3, el_mode = ''t'', el_angle = Some 90\<rparr>
   \<and> fst (box_source table_10_10 0 0 4 2 0 ''right'' ''k'' None ''top'' 0.25 ''k'' 8)
     = Inr \<lparr>el_x = 2, el_y = 0, el_mode = ''t'', el_angle = Some 0\<rparr>
   \<and> fst (box_source table_10_10 0 0 4 2 0 ''top'' ''k'' None ''top'' 0.25 ''k'' 8)
     = Inr \<lparr>el_x = 0, el_y = 1, el_mode = ''t'', el_angle = Some 0\<rparr>"
proof -
  have h: "''right'' \<in> set allowed_sides" "None = None \<or> valid_label_pos ''top''"
    by (simp_all add: allowed_sides_def)
  have s: "box_side ''right'' 1 1 4 2 90 = ((2, 3), (0, 3))"
    by (simp add: box_side_def corner_br_def corner_tr_def rotate_point_def deg_to_rad_def)
  show ?thesis
    using box_source_anchor [OF h, of table_10_10 1 1 4 2 90 "''k''" "0.25" "''k''" 8]
    unfolding s by simp
qed

section \<open>What drawing a beam leaves unchanged\<close>

text \<open>
  Claim C9. \<^verbatim>\<open>LaserBeam.draw\<close> leaves the list of handles, and so every field of every
  handle, as it was, and leaves the aspect ratio of the table as it was; the canvas
  after the call is the canvas before it followed by straight two-point lines.
\<close>

theorem draw_frame:
  "snd (draw self table optics) = optics
   \<and> aspect_ratio (fst (draw self table optics)) = aspect_ratio table
   \<and> (\<exists>segs. ax (fst (draw self table optics)) = ax table @ segs
             \<and> list_all (\<lambda>p. case p of Plot xs ys kw \<Rightarrow> length xs = 2 \<and> length ys = 2 | _ \<Rightarrow> False) segs)"
proof (cases "beam_divergent self")
  case True
  then show ?thesis by (simp add: draw_def)
next
  case False
  have "list_all (\<lambda>p. case p of Plot xs ys kw \<Rightarrow> length xs = 2 \<and> length ys = 2 | _ \<Rightarrow> False)
          (map (segment_at self optics) ns)" for ns
    by (induction ns) (simp_all add: segment_at_def)
  with False show ?thesis
    by (simp add: draw_def fold_draw_step)
qed

section \<open>The outline of a box\<close>

text \<open>
  Claim C10. Every call of \<^verbatim>\<open>box\<close> appends the four edges of the rotated rectangle to
  the canvas, whatever the \<^verbatim>\<open>standalone\<close> flag. With \<^verbatim>\<open>standalone=False\<close> it returns
  the four rotated corners and has drawn exactly these four edges; the call that
  \<^verbatim>\<open>box_source\<close> makes does so too, in black with a solid line.
\<close>

theorem box_always_draws_outline:
  "(\<exists>rest. ax (snd (box self x y size_x size_y angle colour linestyle standalone
                      label label_pos labelpad textcolour fontsize))
            = ax self @ box_outline x y size_x size_y angle
                          [(''color'', KStr colour), (''ls'', KStr linestyle)] @ rest)
   \<and> length (box_outline x y size_x size_y angle [(''color'', KStr colour), (''ls'', KStr linestyle)]) = 4
   \<and> box self x y size_x size_y angle colour linestyle False label label_pos labelpad textcolour fontsize
     = (Inr (Inr [corner_bl x y size_x size_y angle, corner_br x y size_x size_y angle,
                  corner_tr x y size_x size_y angle, corner_tl x y size_x size_y angle]),
        self\<lparr>ax := ax self @ box_outline x y size_x size_y angle
                                  [(''color'', KStr colour), (''ls'', KStr linestyle)]\<rparr>)
   \<and> (output_side \<in> set allowed_sides \<longrightarrow>
        (\<exists>rest. ax (snd (box_source self x y size_x size_y angle output_side colour
                           label label_pos labelpad textcolour fontsize))
            = ax self @ box_outline x y size_x size_y angle
                          [(''color'', KStr ''k''), (''ls'', KStr ''-'')] @ rest))"
proof -
  let ?kw = "[(''color'', KStr colour), (''ls'', KStr linestyle)]"
  let ?t1 = "self\<lparr>ax := ax self @ box_outline x y size_x size_y angle ?kw\<rparr>"
  have lab: "\<exists>rest. ax (snd (and_then (set_label t x y 0 label label_pos labelpad textcolour fs)
                                (\<lambda>_ t2. (f, t2)))) = ax t @ rest" for t fs and f :: "error + 'a"
    by (cases label) (auto simp add: set_label_def and_then_def ax_text_def split: sum.splits)
  have 1: "\<exists>rest. ax (snd (box self x y size_x size_y angle colour linestyle standalone
                      label label_pos labelpad textcolour fontsize))
            = ax self @ box_outline x y size_x size_y angle ?kw @ rest"
  proof (cases standalone)
    case True
    from lab [of ?t1 default_fontsize "Inr (Inl \<lparr>el_x = x, el_y = y, el_mode = ''t'', el_angle = Some angle\<rparr>)"]
    show ?thesis unfolding box_drawn using True by simp
  next
    case False
    then show ?thesis unfolding box_drawn by simp
  qed
  have 2: "length (box_outline x y size_x size_y angle ?kw) = 4"
    by (simp add: box_outline_def)
  have 3: "box self x y size_x size_y angle colour linestyle False label label_pos labelpad textcolour fontsize
     = (Inr (Inr [corner_bl x y size_x size_y angle, corner_br x y size_x size_y angle,
                  corner_tr x y size_x size_y angle, corner_tl x y size_x size_y angle]), ?t1)"
    unfolding box_drawn by simp
  have 4: "output_side \<in> set allowed_sides \<longrightarrow>
        (\<exists>rest. ax (snd (box_source self x y size_x size_y angle output_side colour
                           label label_pos labelpad textcolour fontsize))
            = ax self @ box_outline x y size_x size_y angle
                          [(''color'', KStr ''k''), (''ls'', KStr ''-'')] @ rest)"
  proof
    assume s: "output_side \<in> set allowed_sides"
    from lab [of "self\<lparr>ax := ax self @ box_outline x y size_x size_y angle
                                                  [(''color'', KStr ''k''), (''ls'', KStr ''-'')]\<rparr>" fontsize
                "Inr \<lparr>el_x = fst (get_midpoint (box_side output_side x y size_x size_y angle)),
                          el_y = snd (get_midpoint (box_side output_side x y size_x size_y angle)),
                          el_mode = ''t'', el_angle = Some angle\<rparr>"]
    show "\<exists>rest. ax (snd (box_source self x y size_x size_y angle output_side colour
                           label label_pos labelpad textcolour fontsize))
            = ax self @ box_outline x y size_x size_y angle
                          [(''color'', KStr ''k''), (''ls'', KStr ''-'')] @ rest"
      unfolding box_source_valid [OF s] by simp
  qed
  from 1 2 3 4 show ?thesis by blast
qed

text \<open>
  The box of 4 by 2 at the origin, not standalone, and the same box as a source.
\<close>

theorem box_always_draws_outline_witness:
  "box table_10_10 0 0 4 2 0 ''k'' ''-'' False None ''top'' 0.25 ''k'' 8
     = (Inr (Inr [(-2, -1), (2, -1), (2, 1), (-2, 1)]),
        table_10_10\<lparr>ax := ax table_10_10 @
          [Plot [-2, 2] [-1, -1] [(''color'', KStr ''k''), (''ls'', KStr ''-'')],
           Plot [2, 2] [-1, 1] [(''color'', KStr ''k''), (''ls'', KStr ''-'')],
           Plot [2, -2] [1, 1] [(''color'', KStr ''k''), (''ls'', KStr ''-'')],
           Plot [-2, -2] [1, -1] [(''color'', KStr ''k''), (''ls'', KStr ''-'')]]\<rparr>)
   \<and> take 4 (drop (length (ax table_10_10))
        (ax (snd (box_source table_10_10 0 0 4 2 0 ''right'' ''k'' None ''top'' 0.25 ''k'' 8))))
     = [Plot [-2, 2] [-1, -1] [(''color'', KStr ''k''), (''ls'', KStr ''-'')],
        Plot [2, 2] [-1, 1] [(''color'', KStr ''k''), (''ls'', KStr ''-'')],
        Plot [2, -2] [1, 1] [(''color'', KStr ''k''), (''ls'', KStr ''-'')],
        Plot [-2, -2] [1, -1] [(''color'', KStr ''k''), (''ls'', KStr ''-'')]]"
proof -
  have h: "''right'' \<in> set allowed_sides" by (simp add: allowed_sides_def)
  have c: "corner_bl 0 0 4 2 0 = (-2, -1)" "corner_br 0 0 4 2 0 = (2, -1)"
          "corner_tr 0 0 4 2 0 = (2, 1)" "corner_tl 0 0 4 2 0 = (-2, 1)"
    by (simp_all add: corner_bl_def corner_br_def corner_tr_def corner_tl_def rotate_point_def deg_to_rad_def)
  have o: "box_outline 0 0 4 2 0 [(''color'', KStr ''k''), (''ls'', KStr ''-'')]
     = [Plot [-2, 2] [-1, -1] [(''color'', KStr ''k''), (''ls'', KStr ''-'')],
        Plot [2, 2] [-1, 1] [(''color'', KStr ''k''), (''ls'', KStr ''-'')],
        Plot [2, -2] [1, 1] [(''color'', KStr ''k''), (''ls'', KStr ''-'')],
        Plot [-2, -2] [1, -1] [(''color'', KStr ''k''), (''ls'', KStr ''-'')]]"
    unfolding box_outline_def c by (simp add: edge_between_def)
  note t = box_always_draws_outline [of table_10_10 0 0 4 2 0 "''k''" "''-''" False None "''top''" "0.25" "''k''" 8 "''right''"]
  from t have 1: "box table_10_10 0 0 4 2 0 ''k'' ''-'' False None ''top'' 0.25 ''k'' 8
     = (Inr (Inr [(-2, -1), (2, -1), (2, 1), (-2, 1)]),
        table_10_10\<lparr>ax := ax table_10_10 @
          [Plot [-2, 2] [-1, -1] [(''color'', KStr ''k''), (''ls'', KStr ''-'')],
           Plot [2, 2] [-1, 1] [(''color'', KStr ''k''), (''ls'', KStr ''-'')],
           Plot [2, -2] [1, 1] [(''color'', KStr ''k''), (''ls'', KStr ''-'')],
           Plot [-2, -2] [1, -1] [(''color'', KStr ''k''), (''ls'', KStr ''-'')]]\<rparr>)"
    unfolding o c by simp
  from t h obtain rest where
    "ax (snd (box_source table_10_10 0 0 4 2 0 ''right'' ''k'' None ''top'' 0.25 ''k'' 8))
       = ax table_10_10 @ box_outline 0 0 4 2 0 [(''color'', KStr ''k''), (''ls'', KStr ''-'')] @ rest"
    by blast
  then have 2: "take 4 (drop (length (ax table_10_10))
        (ax (snd (box_source table_10_10 0 0 4 2 0 ''right'' ''k'' None ''top'' 0.25 ''k'' 8))))
     = [Plot [-2, 2] [-1, -1] [(''color'', KStr ''k''), (''ls'', KStr ''-'')],
        Plot [2, 2] [-1, 1] [(''color'', KStr ''k''), (''ls'', KStr ''-'')],
        Plot [2, -2] [1, 1] [(''color'', KStr ''k''), (''ls'', KStr ''-'')],
        Plot [-2, -2] [1, -1] [(''color'', KStr ''k''), (''ls'', KStr ''-'')]]"
    unfolding o by simp
  from 1 2 show ?thesis by blast
qed

end
